theory Spec2Isabelle
  imports Complex_Main "HOL-Library.Sublist"
begin

section \<open>gpodder.gtkui.model: the list models of the gPodder GTK user interface\<close>

text \<open>
  The development embeds \<^verbatim>\<open>src/gpodder/gtkui/model.py\<close>: the time-sliced
  \<^verbatim>\<open>BackgroundUpdate\<close>, the \<^verbatim>\<open>EpisodeListModel\<close> (row store, visibility
  filter, field computation, update scheduling) and the \<^verbatim>\<open>PodcastListModel\<close>
  (visibility filter, sentinel rows, cover cache).

  Conventions of the embedding.
  \<^item> A \<^verbatim>\<open>Gtk.ListStore\<close> is the list of its rows; a row is a record with one field per
    column, named after the column constant. A \<^verbatim>\<open>str\<close> or \<^verbatim>\<open>object\<close> column holds an
    \<open>option\<close> (Python's \<^verbatim>\<open>None\<close>), a \<^verbatim>\<open>bool\<close> column a \<open>bool\<close>, an integer column an
    \<open>int\<close>. \<^verbatim>\<open>append()\<close> without values adds a row of the column defaults.
  \<^item> A raised exception is \<open>Inl\<close> of a \<open>py_error\<close>.
  \<^item> Python floats are read as reals; \<^verbatim>\<open>int(x)\<close> on a float truncates towards zero.
  \<^item> Collaborators that are not part of the module (gettext, \<^verbatim>\<open>gpodder.util\<close>, Gio and
    the icon theme, \<^verbatim>\<open>gpodder.query\<close>) are fields of the record \<open>env\<close>, left uninterpreted.
  \<^item> Leading underscores of Python names are dropped (\<^verbatim>\<open>_filter_visible_func\<close> is
    \<open>filter_visible_func\<close>).
\<close>

subsection \<open>Python values\<close>

datatype py_error = AttributeError | ValueError | QueryError

text \<open>\<^verbatim>\<open>int(x)\<close> for a float \<open>x\<close>.\<close>

definition py_int :: "real \<Rightarrow> int" where
  "py_int x = (if 0 \<le> x then \<lfloor>x\<rfloor> else \<lceil>x\<rceil>)"

text \<open>\<^verbatim>\<open>'%d' % n\<close>: the decimal numeral of an integer.\<close>

fun str_nat :: "nat \<Rightarrow> string" where
  "str_nat n = (if n < 10 then [char_of (48 + n)]
                else str_nat (n div 10) @ [char_of (48 + n mod 10)])"

declare str_nat.simps [simp del]

definition str_int :: "int \<Rightarrow> string" where
  "str_int i = (if i < 0 then CHR ''-'' # str_nat (nat (- i)) else str_nat (nat i))"

text \<open>\<^verbatim>\<open>sep.join(xs)\<close>.\<close>

fun join :: "string \<Rightarrow> string list \<Rightarrow> string" where
  "join sep [] = []"
| "join sep [x] = x"
| "join sep (x # y # ys) = x @ sep @ join sep (y # ys)"

text \<open>\<^verbatim>\<open>html.escape(s)\<close> with its default \<^verbatim>\<open>quote=True\<close>.\<close>

definition html_escape_char :: "char \<Rightarrow> string" where
  "html_escape_char c =
     (if c = CHR ''&'' then ''&amp;''
      else if c = CHR ''<'' then ''&lt;''
      else if c = CHR ''>'' then ''&gt;''
      else if c = CHR 0x22 then ''&quot;''
      else if c = CHR 0x27 then ''&#x27;''
      else [c])"

definition html_escape :: "string \<Rightarrow> string" where
  "html_escape s = concat (map html_escape_char s)"

text \<open>\<^verbatim>\<open>s.strip()\<close>, on the ASCII whitespace characters.\<close>

definition is_space :: "char \<Rightarrow> bool" where
  "is_space c = (c \<in> set [CHR '' '', CHR 0x09, CHR 0x0A, CHR 0x0B, CHR 0x0C, CHR 0x0D])"

definition strip :: "string \<Rightarrow> string" where
  "strip s = rev (dropWhile is_space (rev (dropWhile is_space s)))"

text \<open>\<^verbatim>\<open>s.lower()\<close>, on the ASCII letters.\<close>

definition lower_char :: "char \<Rightarrow> char" where
  "lower_char c = (let n = (of_char c :: nat)
                   in if 65 \<le> n \<and> n \<le> 90 then char_of (n + 32) else c)"

definition lower :: "string \<Rightarrow> string" where
  "lower s = map lower_char s"

subsection \<open>Episodes\<close>

text \<open>
  \<^verbatim>\<open>gpodder.STATE_NORMAL, STATE_DOWNLOADED, STATE_DELETED\<close>: the three episode states of
  the package (declared outside this module).
\<close>

datatype episode_state = STATE_NORMAL | STATE_DOWNLOADED | STATE_DELETED

text \<open>
  What the module reads of a \<^verbatim>\<open>GEpisode\<close>: its attributes, and the results of the
  methods it calls on it (\<^verbatim>\<open>cute_pubdate()\<close>, \<^verbatim>\<open>file_exists()\<close>, \<^verbatim>\<open>file_type()\<close>,
  \<^verbatim>\<open>local_filename(create=False, check_only=True)\<close>, \<^verbatim>\<open>get_play_info_string()\<close>,
  \<^verbatim>\<open>one_line_description()\<close>), \<open>progress\<close> for \<^verbatim>\<open>download_task.progress\<close> and
  \<open>channel_title\<close> for \<^verbatim>\<open>channel.title\<close>.
\<close>

record episode =
  url :: string
  title :: string
  trimmed_title :: string
  channel_title :: string
  published :: int
  cute_pubdate :: string
  downloading :: bool
  progress :: real
  state :: episode_state
  is_new :: bool
  archive :: bool
  file_exists :: bool
  file_type :: "string option"
  local_filename :: "string option"
  total_time :: int
  current_position :: int
  file_size :: int
  get_play_info_string :: string
  one_line_description :: string

subsection \<open>Collaborators outside the module\<close>

record env =
  gettext :: "string \<Rightarrow> string"
  format_from :: "string \<Rightarrow> string"
  format_filesize :: "int \<Rightarrow> nat \<Rightarrow> string"
  format_time :: "int \<Rightarrow> string"
  have_gio :: bool
  win32 :: bool
  query_exists :: "string \<Rightarrow> bool"
  icon_names :: "string \<Rightarrow> string list"
  has_icon :: "string \<Rightarrow> bool"
  UserEQL :: "string option \<Rightarrow> episode \<Rightarrow> py_error + bool"

text \<open>
  \<open>gettext\<close> is \<^verbatim>\<open>_\<close>; \<open>format_from s\<close> is \<^verbatim>\<open>_('from %s') % s\<close>;
  \<open>format_filesize n d\<close> is \<^verbatim>\<open>util.format_filesize(n, digits=d)\<close>; \<open>format_time\<close> is
  \<^verbatim>\<open>util.format_time\<close>; \<open>query_exists f\<close> is \<^verbatim>\<open>Gio.File.new_for_path(f).query_exists()\<close>
  and \<open>icon_names f\<close> the names of the icon of that file; \<open>has_icon\<close> is the default icon
  theme's \<^verbatim>\<open>has_icon\<close>; \<open>UserEQL term\<close> is the \<^verbatim>\<open>match\<close> method of
  \<^verbatim>\<open>query.UserEQL(term)\<close>, which returns a truth value or raises.
\<close>

subsection \<open>The episode list store\<close>

text \<open>The seventeen columns \<^verbatim>\<open>C_URL\<close> ... \<^verbatim>\<open>C_LOCKED\<close> of a row.\<close>

record episode_row =
  C_URL :: "string option"
  C_TITLE :: "string option"
  C_FILESIZE_TEXT :: "string option"
  C_EPISODE :: "episode option"
  C_STATUS_ICON :: "string option"
  C_PUBLISHED_TEXT :: "string option"
  C_DESCRIPTION :: "string option"
  C_TOOLTIP :: "string option"
  C_VIEW_SHOW_UNDELETED :: bool
  C_VIEW_SHOW_DOWNLOADED :: bool
  C_VIEW_SHOW_UNPLAYED :: bool
  C_FILESIZE :: int
  C_PUBLISHED :: int
  C_TIME :: "string option"
  C_TIME_VISIBLE :: bool
  C_TOTAL_TIME :: int
  C_LOCKED :: bool

text \<open>The row that \<^verbatim>\<open>append()\<close> adds: every column at its default.\<close>

definition empty_row :: episode_row where
  "empty_row = \<lparr> C_URL = None, C_TITLE = None, C_FILESIZE_TEXT = None, C_EPISODE = None,
     C_STATUS_ICON = None, C_PUBLISHED_TEXT = None, C_DESCRIPTION = None, C_TOOLTIP = None,
     C_VIEW_SHOW_UNDELETED = False, C_VIEW_SHOW_DOWNLOADED = False,
     C_VIEW_SHOW_UNPLAYED = False, C_FILESIZE = 0, C_PUBLISHED = 0, C_TIME = None,
     C_TIME_VISIBLE = False, C_TOTAL_TIME = 0, C_LOCKED = False \<rparr>"

text \<open>
  \<^verbatim>\<open>VIEW_ALL, VIEW_UNDELETED, VIEW_DOWNLOADED, VIEW_UNPLAYED = list(range(4))\<close>: the view
  mode is an integer, and \<^verbatim>\<open>set_view_mode\<close> accepts any.
\<close>

definition VIEW_ALL :: int where "VIEW_ALL = 0"
definition VIEW_UNDELETED :: int where "VIEW_UNDELETED = 1"
definition VIEW_DOWNLOADED :: int where "VIEW_DOWNLOADED = 2"
definition VIEW_UNPLAYED :: int where "VIEW_UNPLAYED = 3"

definition PROGRESS_STEPS :: int where "PROGRESS_STEPS = 20"

text \<open>
  \<^verbatim>\<open>BackgroundUpdate\<close>: the queue of episodes still to be written, the flag of the
  request and the row the next episode goes to. (Its \<^verbatim>\<open>model\<close> attribute is the store
  that holds it.) The queue can hold \<^verbatim>\<open>None\<close>: \<^verbatim>\<open>update_all\<close> fills it from the
  \<^verbatim>\<open>C_EPISODE\<close> column.
\<close>

record background_update =
  episodes :: "episode option list"
  include_description :: bool
  index :: nat

text \<open>
  The attributes of an \<^verbatim>\<open>EpisodeListModel\<close>. \<open>rows\<close> is the list store itself.
  \<open>sources\<close> is the set of idle callbacks of this store that are registered with the GLib
  main loop, listed by tag, and \<open>next_tag\<close> the tag that the next \<^verbatim>\<open>idle_add\<close> returns;
  \<open>filter_changed\<close> collects the arguments of the calls of \<^verbatim>\<open>_on_filter_changed\<close>, the
  latest first.
\<close>

record episode_list_model =
  rows :: "episode_row list"
  view_mode :: int
  search_term :: "string option"
  search_term_eql :: "(episode \<Rightarrow> py_error + bool) option"
  all_episodes_view :: bool
  ICON_AUDIO_FILE :: string
  ICON_VIDEO_FILE :: string
  ICON_IMAGE_FILE :: string
  ICON_GENERIC_FILE :: string
  ICON_DOWNLOADING :: string
  ICON_DELETED :: string
  background_update :: "background_update option"
  background_update_tag :: "nat option"
  sources :: "nat list"
  next_tag :: nat
  filter_changed :: "bool list"

text \<open>
  \<^verbatim>\<open>EpisodeListModel.__init__\<close>; \<open>kde\<close> is \<^verbatim>\<open>'KDE_FULL_SESSION' in os.environ\<close>.
\<close>

definition init_model :: "bool \<Rightarrow> episode_list_model" where
  "init_model kde = \<lparr> rows = [], view_mode = VIEW_ALL, search_term = None,
     search_term_eql = None, all_episodes_view = False,
     ICON_AUDIO_FILE = ''audio-x-generic'', ICON_VIDEO_FILE = ''video-x-generic'',
     ICON_IMAGE_FILE = ''image-x-generic'', ICON_GENERIC_FILE = ''text-x-generic'',
     ICON_DOWNLOADING = ''gtk-go-down'',
     ICON_DELETED = (if kde then ''archive-remove'' else ''gtk-delete''),
     background_update = None, background_update_tag = None,
     sources = [], next_tag = 1, filter_changed = [] \<rparr>"

subsection \<open>Computing the volatile fields of a row\<close>

text \<open>\<^verbatim>\<open>EpisodeListModel._format_filesize\<close>.\<close>

definition format_filesize_of :: "env \<Rightarrow> episode \<Rightarrow> string option" where
  "format_filesize_of env episode =
     (if file_size episode > 0 then Some (format_filesize env (file_size episode) 1)
      else None)"

text \<open>\<^verbatim>\<open>EpisodeListModel._format_description\<close>, the generator's pieces concatenated.\<close>

definition format_description :: "env \<Rightarrow> episode_list_model \<Rightarrow> episode \<Rightarrow> bool \<Rightarrow> string" where
  "format_description env self episode incl =
     (let t = trimmed_title episode;
          head = (if state episode \<noteq> STATE_DELETED \<and> is_new episode
                  then ''<b>'' @ html_escape t @ ''</b>''
                  else html_escape t)
      in if incl then
           head @ [CHR 0x0A] @
           (if all_episodes_view self then format_from env (html_escape (channel_title episode))
            else let d = one_line_description episode;
                     d' = (if prefix t d then strip (drop (length t) d) else d)
                 in html_escape d')
         else head)"

text \<open>
  The values that \<^verbatim>\<open>get_update_fields\<close> returns, one field per column of the returned
  pairs.
\<close>

record update_fields =
  uf_status_icon :: "string option"
  uf_view_show_undeleted :: bool
  uf_view_show_downloaded :: bool
  uf_view_show_unplayed :: bool
  uf_description :: string
  uf_tooltip :: string
  uf_time :: string
  uf_time_visible :: bool
  uf_total_time :: int
  uf_locked :: bool
  uf_filesize_text :: "string option"
  uf_filesize :: int

text \<open>
  The local variables of \<^verbatim>\<open>get_update_fields\<close> that its branches assign:
  \<^verbatim>\<open>status_icon\<close>, \<^verbatim>\<open>tooltip\<close> and the three view flags.
\<close>

record update_locals =
  status_icon :: "string option"
  tooltip :: "string list"
  view_show_undeleted :: bool
  view_show_downloaded :: bool
  view_show_unplayed :: bool

text \<open>
  The branch \<^verbatim>\<open>episode.state == gpodder.STATE_DOWNLOADED\<close> of \<^verbatim>\<open>get_update_fields\<close>.
\<close>

definition themed_icon :: "env \<Rightarrow> episode \<Rightarrow> string option" where
  "themed_icon env episode =
     (case local_filename episode of
        None \<Rightarrow> None
      | Some filename \<Rightarrow>
          if have_gio env \<and> \<not> win32 env \<and> query_exists env filename
          then find (has_icon env) (icon_names env filename)
          else None)"

definition downloaded_locals :: "env \<Rightarrow> episode_list_model \<Rightarrow> episode \<Rightarrow> update_locals" where
  "downloaded_locals env self episode =
     (let show_bullet = is_new episode;
          show_padlock = archive episode;
          show_missing = (\<not> file_exists episode);
          ft = file_type episode;
          (t1, icon1) =
            (if ft = Some ''audio'' then (gettext env ''Downloaded episode'', ICON_AUDIO_FILE self)
             else if ft = Some ''video'' then (gettext env ''Downloaded video episode'', ICON_VIDEO_FILE self)
             else if ft = Some ''image'' then (gettext env ''Downloaded image'', ICON_IMAGE_FILE self)
             else (gettext env ''Downloaded file'', ICON_GENERIC_FILE self));
          icon2 = (case themed_icon env episode of None \<Rightarrow> icon1 | Some n \<Rightarrow> n);
          t2 = (if show_missing then [gettext env ''missing file'']
                else
                  [if show_bullet then
                     (if ft = Some ''image'' then gettext env ''never displayed''
                      else if ft = Some ''audio'' \<or> ft = Some ''video'' then gettext env ''never played''
                      else gettext env ''never opened'')
                   else
                     (if ft = Some ''image'' then gettext env ''displayed''
                      else if ft = Some ''audio'' \<or> ft = Some ''video'' then gettext env ''played''
                      else gettext env ''opened'')]
                  @ (if show_padlock then [gettext env ''deletion prevented''] else []));
          t3 = (if total_time episode > 0 \<and> current_position episode \<noteq> 0
                then [str_int (py_int (100 * real_of_int (current_position episode)
                                        / real_of_int (total_time episode))) @ ''%'']
                else [])
      in \<lparr> status_icon = Some icon2, tooltip = [t1] @ t2 @ t3,
           view_show_undeleted = True, view_show_downloaded = True,
           view_show_unplayed = is_new episode \<rparr>)"

text \<open>The branches of \<^verbatim>\<open>get_update_fields\<close> up to the total time.\<close>

definition state_locals :: "env \<Rightarrow> episode_list_model \<Rightarrow> episode \<Rightarrow> update_locals" where
  "state_locals env self episode =
     (if downloading episode then
        \<lparr> status_icon = Some (''gpodder-progress-''
              @ str_int (py_int (real_of_int PROGRESS_STEPS * progress episode))),
          tooltip = [gettext env ''Downloading'' @ '' ''
              @ str_int (py_int (progress episode * 100)) @ ''%''],
          view_show_undeleted = True, view_show_downloaded = True,
          view_show_unplayed = True \<rparr>
      else if state episode = STATE_DELETED then
        \<lparr> status_icon = Some (ICON_DELETED self), tooltip = [gettext env ''Deleted''],
          view_show_undeleted = False, view_show_downloaded = False,
          view_show_unplayed = False \<rparr>
      else if state episode = STATE_NORMAL \<and> is_new episode then
        \<lparr> status_icon = None, tooltip = [gettext env ''New episode''],
          view_show_undeleted = True, view_show_downloaded = True,
          view_show_unplayed = True \<rparr>
      else if state episode = STATE_DOWNLOADED then downloaded_locals env self episode
      else
        \<lparr> status_icon = None, tooltip = [],
          view_show_undeleted = True, view_show_downloaded = False,
          view_show_unplayed = False \<rparr>)"

text \<open>\<^verbatim>\<open>EpisodeListModel.get_update_fields\<close>.\<close>

definition get_update_fields :: "env \<Rightarrow> episode_list_model \<Rightarrow> episode \<Rightarrow> bool \<Rightarrow> update_fields" where
  "get_update_fields env self episode incl =
     (let l = state_locals env self episode;
          tt = (if total_time episode \<noteq> 0
                then (let t = format_time env (total_time episode)
                      in if t \<noteq> [] then tooltip l @ [t] else tooltip l)
                else tooltip l)
      in \<lparr> uf_status_icon = status_icon l,
           uf_view_show_undeleted = view_show_undeleted l,
           uf_view_show_downloaded = view_show_downloaded l,
           uf_view_show_unplayed = view_show_unplayed l,
           uf_description = format_description env self episode incl,
           uf_tooltip = join '', '' tt,
           uf_time = get_play_info_string episode,
           uf_time_visible = (total_time episode \<noteq> 0),
           uf_total_time = total_time episode,
           uf_locked = archive episode,
           uf_filesize_text = format_filesize_of env episode,
           uf_filesize = file_size episode \<rparr>)"

text \<open>
  \<^verbatim>\<open>self.set(iter, *pairs)\<close> with the pairs of \<^verbatim>\<open>get_update_fields\<close>: each value goes
  to its column.
\<close>

definition set_update_fields :: "update_fields \<Rightarrow> episode_row \<Rightarrow> episode_row" where
  "set_update_fields f r = r\<lparr>
     C_STATUS_ICON := uf_status_icon f,
     C_VIEW_SHOW_UNDELETED := uf_view_show_undeleted f,
     C_VIEW_SHOW_DOWNLOADED := uf_view_show_downloaded f,
     C_VIEW_SHOW_UNPLAYED := uf_view_show_unplayed f,
     C_DESCRIPTION := Some (uf_description f),
     C_TOOLTIP := Some (uf_tooltip f),
     C_TIME := Some (uf_time f),
     C_TIME_VISIBLE := uf_time_visible f,
     C_TOTAL_TIME := uf_total_time f,
     C_LOCKED := uf_locked f,
     C_FILESIZE_TEXT := uf_filesize_text f,
     C_FILESIZE := uf_filesize f \<rparr>"

text \<open>
  \<^verbatim>\<open>EpisodeListModel.update_by_iter\<close>; the iter is the position of the row. An iter of
  the store is valid, so a position outside the store leaves it as it is.
\<close>

definition update_by_iter :: "env \<Rightarrow> nat \<Rightarrow> bool \<Rightarrow> episode_list_model \<Rightarrow> episode_list_model" where
  "update_by_iter env i incl self =
     (if i < length (rows self) then
        (case C_EPISODE (rows self ! i) of
           None \<Rightarrow> self
         | Some episode \<Rightarrow>
             self\<lparr> rows := (rows self)[i :=
               set_update_fields (get_update_fields env self episode incl) (rows self ! i)] \<rparr>)
      else self)"

subsection \<open>The visibility filter of the episode list\<close>

text \<open>
  \<^verbatim>\<open>EpisodeListModel._filter_visible_func\<close>, on the row that the iter points to. The
  call \<^verbatim>\<open>self._search_term_eql.match(episode)\<close> stands inside the \<^verbatim>\<open>try\<close>: whatever it
  raises, also the \<^verbatim>\<open>AttributeError\<close> of a \<^verbatim>\<open>_search_term_eql\<close> that is \<^verbatim>\<open>None\<close>, is
  caught and answered with \<^verbatim>\<open>True\<close>.
\<close>

definition filter_visible_func :: "episode_list_model \<Rightarrow> episode_row \<Rightarrow> bool" where
  "filter_visible_func self row =
     (if search_term self \<noteq> None then
        (case C_EPISODE row of
           None \<Rightarrow> False
         | Some episode \<Rightarrow>
             (case search_term_eql self of
                None \<Rightarrow> True
              | Some match \<Rightarrow> (case match episode of Inl e \<Rightarrow> True | Inr b \<Rightarrow> b)))
      else if view_mode self = VIEW_ALL then True
      else if view_mode self = VIEW_UNDELETED then C_VIEW_SHOW_UNDELETED row
      else if view_mode self = VIEW_DOWNLOADED then C_VIEW_SHOW_DOWNLOADED row
      else if view_mode self = VIEW_UNPLAYED then C_VIEW_SHOW_UNPLAYED row
      else True)"

text \<open>The rows of the filtered model \<^verbatim>\<open>self._filter\<close>: the projection.\<close>

definition filtered_rows :: "episode_list_model \<Rightarrow> episode_row list" where
  "filtered_rows self = filter (filter_visible_func self) (rows self)"

text \<open>\<^verbatim>\<open>EpisodeListModel.has_episodes\<close>: \<^verbatim>\<open>bool(len(self._filter))\<close>.\<close>

definition has_episodes :: "episode_list_model \<Rightarrow> bool" where
  "has_episodes self = (length (filtered_rows self) \<noteq> 0)"

text \<open>\<^verbatim>\<open>self._on_filter_changed(self.has_episodes())\<close>.\<close>

definition on_filter_changed :: "episode_list_model \<Rightarrow> episode_list_model" where
  "on_filter_changed self = self\<lparr> filter_changed := has_episodes self # filter_changed self \<rparr>"

text \<open>\<^verbatim>\<open>EpisodeListModel.set_view_mode\<close>.\<close>

definition set_view_mode :: "int \<Rightarrow> episode_list_model \<Rightarrow> episode_list_model" where
  "set_view_mode new_mode self =
     (if view_mode self \<noteq> new_mode
      then on_filter_changed (self\<lparr> view_mode := new_mode \<rparr>)
      else self)"

text \<open>\<^verbatim>\<open>EpisodeListModel.set_search_term\<close>.\<close>

definition set_search_term :: "env \<Rightarrow> string option \<Rightarrow> episode_list_model \<Rightarrow> episode_list_model" where
  "set_search_term env new_term self =
     (if search_term self \<noteq> new_term
      then on_filter_changed
             (self\<lparr> search_term := new_term, search_term_eql := Some (UserEQL env new_term) \<rparr>)
      else self)"

subsection \<open>The background update\<close>

text \<open>
  \<^verbatim>\<open>GObject.source_remove\<close> and \<^verbatim>\<open>GObject.idle_add\<close>, on the idle sources of the store.
\<close>

definition source_remove :: "nat \<Rightarrow> episode_list_model \<Rightarrow> episode_list_model" where
  "source_remove tag self = self\<lparr> sources := removeAll tag (sources self) \<rparr>"

definition idle_add :: "episode_list_model \<Rightarrow> nat \<times> episode_list_model" where
  "idle_add self =
     (next_tag self,
      self\<lparr> sources := sources self @ [next_tag self], next_tag := Suc (next_tag self) \<rparr>)"

text \<open>
  The pairs \<^verbatim>\<open>base_fields\<close> of \<^verbatim>\<open>BackgroundUpdate.update\<close>, written to their columns.
\<close>

definition set_base_fields :: "episode \<Rightarrow> episode_row \<Rightarrow> episode_row" where
  "set_base_fields episode r = r\<lparr>
     C_URL := Some (url episode),
     C_TITLE := Some (title episode),
     C_EPISODE := Some episode,
     C_PUBLISHED_TEXT := Some (cute_pubdate episode),
     C_PUBLISHED := published episode \<rparr>"

text \<open>
  The \<^verbatim>\<open>while self.episodes\<close> loop of \<^verbatim>\<open>BackgroundUpdate.update\<close>. The arguments after
  \<open>env\<close>: \<open>tm k\<close> is what \<^verbatim>\<open>time.time()\<close> returns once \<open>k\<close> episodes of this call have been
  written (\<open>tm 0\<close> is the reading \<^verbatim>\<open>started\<close>); \<open>k\<close> counts the episodes written so far in
  this call; then \<^verbatim>\<open>include_description\<close>, \<^verbatim>\<open>self.episodes\<close>, \<^verbatim>\<open>self.index\<close> and the
  store. The loop pops the head of the queue; \<^verbatim>\<open>episode.url\<close> raises \<^verbatim>\<open>AttributeError\<close>
  on \<^verbatim>\<open>None\<close>, and \<^verbatim>\<open>model.get_iter((self.index,))\<close> raises \<^verbatim>\<open>ValueError\<close> when the
  store has no such row. The clock is read only when \<^verbatim>\<open>self.index % 50 == 0\<close>.
\<close>

fun update_loop :: "env \<Rightarrow> (nat \<Rightarrow> real) \<Rightarrow> nat \<Rightarrow> bool \<Rightarrow> episode option list \<Rightarrow> nat
    \<Rightarrow> episode_list_model \<Rightarrow> py_error + (episode option list \<times> nat \<times> episode_list_model)" where
  "update_loop env tm k incl [] idx model = Inr ([], idx, model)"
| "update_loop env tm k incl (e # rest) idx model =
     (case e of
        None \<Rightarrow> Inl AttributeError
      | Some episode \<Rightarrow>
          if length (rows model) \<le> idx then Inl ValueError
          else
            (let update_fields = get_update_fields env model episode incl;
                 model' = model\<lparr> rows := (rows model)[idx :=
                            set_update_fields update_fields
                              (set_base_fields episode (rows model ! idx))] \<rparr>;
                 idx' = idx + 1
             in if idx' mod 50 = 0 \<and> tm (Suc k) - tm 0 > 0.02
                then Inr (rest, idx', model')
                else update_loop env tm (Suc k) incl rest idx' model'))"

text \<open>
  \<^verbatim>\<open>BackgroundUpdate.update\<close>: the result is the returned truth value, the updater
  object and the store after the call.
\<close>

definition update :: "env \<Rightarrow> (nat \<Rightarrow> real) \<Rightarrow> background_update \<Rightarrow> episode_list_model
    \<Rightarrow> py_error + (bool \<times> background_update \<times> episode_list_model)" where
  "update env tm self model =
     (case update_loop env tm 0 (include_description self) (episodes self) (index self) model of
        Inl e \<Rightarrow> Inl e
      | Inr (queue, idx, model') \<Rightarrow>
          Inr (queue \<noteq> [], self\<lparr> episodes := queue, index := idx \<rparr>, model'))"

text \<open>\<^verbatim>\<open>EpisodeListModel._update_from_episodes\<close>.\<close>

definition update_from_episodes :: "episode option list \<Rightarrow> bool \<Rightarrow> episode_list_model
    \<Rightarrow> episode_list_model" where
  "update_from_episodes eps incl self =
     (let self1 = (case background_update_tag self of
                     None \<Rightarrow> self
                   | Some tag \<Rightarrow> source_remove tag self);
          self2 = self1\<lparr> background_update :=
                    Some \<lparr> episodes = eps, include_description = incl, index = 0 \<rparr> \<rparr>;
          (tag, self3) = idle_add self2
      in self3\<lparr> background_update_tag := Some tag \<rparr>)"

text \<open>
  \<^verbatim>\<open>EpisodeListModel._update_background\<close>: the returned truth value and the store. The
  updater object is mutated in place, so the store's \<^verbatim>\<open>background_update\<close> is the
  updated one.
\<close>

definition update_background :: "env \<Rightarrow> (nat \<Rightarrow> real) \<Rightarrow> episode_list_model
    \<Rightarrow> py_error + (bool \<times> episode_list_model)" where
  "update_background env tm self =
     (case background_update self of
        None \<Rightarrow> Inr (False, self)
      | Some bu \<Rightarrow>
          (case update env tm bu self of
             Inl e \<Rightarrow> Inl e
           | Inr (again, bu', self') \<Rightarrow>
               if again then Inr (True, self'\<lparr> background_update := Some bu' \<rparr>)
               else Inr (False, on_filter_changed
                      (self'\<lparr> background_update := None, background_update_tag := None \<rparr>))))"

text \<open>
  The GLib main loop running the idle source \<open>tag\<close> once: it calls the callback, here
  always \<^verbatim>\<open>_update_background\<close>, and destroys the source when the callback returns
  \<^verbatim>\<open>False\<close>.
\<close>

definition idle_dispatch :: "env \<Rightarrow> (nat \<Rightarrow> real) \<Rightarrow> nat \<Rightarrow> episode_list_model
    \<Rightarrow> py_error + episode_list_model" where
  "idle_dispatch env tm tag self =
     (if tag \<in> set (sources self) then
        (case update_background env tm self of
           Inl e \<Rightarrow> Inl e
         | Inr (again, self') \<Rightarrow> Inr (if again then self' else source_remove tag self'))
      else Inr self)"

text \<open>\<^verbatim>\<open>EpisodeListModel.update_all\<close>.\<close>

definition update_all :: "bool \<Rightarrow> episode_list_model \<Rightarrow> episode_list_model" where
  "update_all incl self =
     (let eps = (case background_update self of
                   None \<Rightarrow> map C_EPISODE (rows self)
                 | Some bu \<Rightarrow> map C_EPISODE (take (index bu) (rows self)) @ episodes bu)
      in update_from_episodes eps incl self)"

text \<open>
  What \<^verbatim>\<open>replace_from_channel\<close> reads of its channel: the attribute
  \<^verbatim>\<open>ALL_EPISODES_PROXY\<close> (\<^verbatim>\<open>False\<close> where a class has none) and the episodes that
  \<^verbatim>\<open>get_all_episodes()\<close> yields.
\<close>

record channel =
  ALL_EPISODES_PROXY :: bool
  get_all_episodes :: "episode list"

text \<open>\<^verbatim>\<open>EpisodeListModel.replace_from_channel\<close>.\<close>

definition replace_from_channel :: "channel option \<Rightarrow> bool \<Rightarrow> episode_list_model
    \<Rightarrow> episode_list_model" where
  "replace_from_channel chan incl self =
     (let self1 = self\<lparr> rows := [] \<rparr>;
          self2 = self1\<lparr> all_episodes_view :=
                    (case chan of None \<Rightarrow> False | Some c \<Rightarrow> ALL_EPISODES_PROXY c) \<rparr>;
          eps = (case chan of None \<Rightarrow> [] | Some c \<Rightarrow> get_all_episodes c);
          self3 = self2\<lparr> rows := rows self2 @ replicate (length eps) empty_row \<rparr>
      in update_from_episodes (map Some eps) incl self3)"

text \<open>\<^verbatim>\<open>EpisodeListModel.update_by_urls\<close>: the rows are visited in order.\<close>

definition update_by_urls :: "env \<Rightarrow> string list \<Rightarrow> bool \<Rightarrow> episode_list_model
    \<Rightarrow> episode_list_model" where
  "update_by_urls env urls incl self =
     fold (\<lambda>i m. if C_URL (rows m ! i) \<in> Some ` set urls then update_by_iter env i incl m else m)
       [0 ..< length (rows self)] self"

text \<open>
  What the user interface and the main loop do to a store between two populations: the
  main loop runs an idle source (with the clock of that call), or one of the methods
  \<^verbatim>\<open>update_all\<close>, \<^verbatim>\<open>update_by_iter\<close>, \<^verbatim>\<open>update_by_urls\<close>, \<^verbatim>\<open>set_view_mode\<close>,
  \<^verbatim>\<open>set_search_term\<close> is called.
\<close>

datatype event =
    Idle nat "nat \<Rightarrow> real"
  | UpdateAll bool
  | UpdateByIter nat bool
  | UpdateByUrls "string list" bool
  | SetViewMode int
  | SetSearchTerm "string option"

fun apply_event :: "env \<Rightarrow> event \<Rightarrow> episode_list_model \<Rightarrow> py_error + episode_list_model" where
  "apply_event env (Idle tag tm) self = idle_dispatch env tm tag self"
| "apply_event env (UpdateAll incl) self = Inr (update_all incl self)"
| "apply_event env (UpdateByIter i incl) self = Inr (update_by_iter env i incl self)"
| "apply_event env (UpdateByUrls urls incl) self = Inr (update_by_urls env urls incl self)"
| "apply_event env (SetViewMode new_mode) self = Inr (set_view_mode new_mode self)"
| "apply_event env (SetSearchTerm new_term) self = Inr (set_search_term env new_term self)"

fun run_events :: "env \<Rightarrow> event list \<Rightarrow> episode_list_model \<Rightarrow> py_error + episode_list_model" where
  "run_events env [] self = Inr self"
| "run_events env (ev # evs) self =
     (case apply_event env ev self of
        Inl e \<Rightarrow> Inl e
      | Inr self' \<Rightarrow> run_events env evs self')"

subsection \<open>The podcast list store\<close>

text \<open>
  A \<^verbatim>\<open>GdkPixbuf.Pixbuf\<close> object: \<open>pixbuf_id\<close> tells the objects apart (two pixbufs are
  the same instance when they are equal as records), \<open>width\<close> and \<open>height\<close> are
  \<^verbatim>\<open>get_width()\<close> and \<^verbatim>\<open>get_height()\<close>, both positive for every pixbuf.
\<close>

record pixbuf =
  pixbuf_id :: nat
  width :: int
  height :: int

text \<open>
  What the column \<^verbatim>\<open>C_CHANNEL\<close> holds: a podcast (or the proxy of all episodes), or
  one of the marker classes \<^verbatim>\<open>SectionMarker\<close>, \<^verbatim>\<open>SeparatorMarker\<close>.
\<close>

datatype channel_object = Podcast channel | SectionMarker | SeparatorMarker

text \<open>
  The sixteen columns of a row of the \<^verbatim>\<open>PodcastListModel\<close>. The columns that the
  episode list names too carry the suffix \<open>_P\<close>.
\<close>

record podcast_row =
  C_URL_P :: "string option"
  C_TITLE_P :: "string option"
  C_DESCRIPTION_P :: "string option"
  C_PILL :: "pixbuf option"
  C_CHANNEL :: "channel_object option"
  C_COVER :: "pixbuf option"
  C_ERROR :: "string option"
  C_PILL_VISIBLE :: bool
  C_VIEW_SHOW_UNDELETED_P :: bool
  C_VIEW_SHOW_DOWNLOADED_P :: bool
  C_VIEW_SHOW_UNPLAYED_P :: bool
  C_HAS_EPISODES :: bool
  C_SEPARATOR :: bool
  C_DOWNLOADS :: int
  C_COVER_VISIBLE :: bool
  C_SECTION :: "string option"

text \<open>\<^verbatim>\<open>SEARCH_COLUMNS = (C_TITLE, C_DESCRIPTION, C_SECTION)\<close>.\<close>

definition SEARCH_COLUMNS :: "(podcast_row \<Rightarrow> string option) list" where
  "SEARCH_COLUMNS = [C_TITLE_P, C_DESCRIPTION_P, C_SECTION]"

text \<open>
  The attributes of a \<^verbatim>\<open>PodcastListModel\<close> (suffix \<open>_P\<close> where the episode list has
  the name too). \<open>cover_cache\<close> is the dictionary \<^verbatim>\<open>_cover_cache\<close>; \<open>next_pixbuf\<close> is the
  \<open>pixbuf_id\<close> of the object that the next \<^verbatim>\<open>scale_simple\<close> creates.
\<close>

record podcast_list_model =
  rows_P :: "podcast_row list"
  view_mode_P :: int
  search_term_P :: "string option"
  cover_cache :: "string \<rightharpoonup> pixbuf"
  max_image_side :: int
  next_pixbuf :: nat

text \<open>\<^verbatim>\<open>PodcastListModel.__init__\<close>; \<open>fresh\<close> is the first free pixbuf identity.\<close>

definition init_podcast_model :: "nat \<Rightarrow> podcast_list_model" where
  "init_podcast_model fresh = \<lparr> rows_P = [], view_mode_P = - 1, search_term_P = None,
     cover_cache = Map.empty, max_image_side = 40, next_pixbuf = fresh \<rparr>"

text \<open>\<^verbatim>\<open>PodcastListModel._filter_visible_func\<close>.\<close>

definition filter_visible_func_P :: "podcast_list_model \<Rightarrow> podcast_row \<Rightarrow> bool" where
  "filter_visible_func_P self row =
     (case search_term_P self of
        Some search \<Rightarrow>
          if C_CHANNEL row = Some SectionMarker then True
          else
            (let key = lower search;
                 columns = map (\<lambda>c. c row) SEARCH_COLUMNS
             in list_ex (\<lambda>c. sublist key (lower c)) [c. Some c \<leftarrow> columns])
      | None \<Rightarrow>
          if C_SEPARATOR row then True
          else if view_mode_P self = VIEW_ALL then C_HAS_EPISODES row
          else if view_mode_P self = VIEW_UNDELETED then C_VIEW_SHOW_UNDELETED_P row
          else if view_mode_P self = VIEW_DOWNLOADED then C_VIEW_SHOW_DOWNLOADED_P row
          else if view_mode_P self = VIEW_UNPLAYED then C_VIEW_SHOW_UNPLAYED_P row
          else True)"

text \<open>\<^verbatim>\<open>PodcastListModel.set_view_mode\<close> and \<^verbatim>\<open>set_search_term\<close>.\<close>

definition set_view_mode_P :: "int \<Rightarrow> podcast_list_model \<Rightarrow> podcast_list_model" where
  "set_view_mode_P new_mode self =
     (if view_mode_P self \<noteq> new_mode then self\<lparr> view_mode_P := new_mode \<rparr> else self)"

definition set_search_term_P :: "string option \<Rightarrow> podcast_list_model \<Rightarrow> podcast_list_model" where
  "set_search_term_P new_term self =
     (if search_term_P self \<noteq> new_term then self\<lparr> search_term_P := new_term \<rparr> else self)"

text \<open>
  The two sentinel rows that \<^verbatim>\<open>set_channels\<close> appends: the separator item below the
  row of all episodes, and the header of a section.
\<close>

definition separator_row :: podcast_row where
  "separator_row = \<lparr> C_URL_P = Some [], C_TITLE_P = Some [], C_DESCRIPTION_P = Some [],
     C_PILL = None, C_CHANNEL = Some SeparatorMarker, C_COVER = None, C_ERROR = Some [],
     C_PILL_VISIBLE = True, C_VIEW_SHOW_UNDELETED_P = True, C_VIEW_SHOW_DOWNLOADED_P = True,
     C_VIEW_SHOW_UNPLAYED_P = True, C_HAS_EPISODES = True, C_SEPARATOR = True,
     C_DOWNLOADS = 0, C_COVER_VISIBLE = False, C_SECTION = Some [] \<rparr>"

definition section_row :: "string \<Rightarrow> podcast_row" where
  "section_row section = \<lparr> C_URL_P = Some ''-'', C_TITLE_P = Some section,
     C_DESCRIPTION_P = Some [], C_PILL = None, C_CHANNEL = Some SectionMarker,
     C_COVER = None, C_ERROR = Some [], C_PILL_VISIBLE = True,
     C_VIEW_SHOW_UNDELETED_P = True, C_VIEW_SHOW_DOWNLOADED_P = True,
     C_VIEW_SHOW_UNPLAYED_P = True, C_HAS_EPISODES = True, C_SEPARATOR = False,
     C_DOWNLOADS = 0, C_COVER_VISIBLE = False, C_SECTION = Some section \<rparr>"

subsection \<open>The cover cache\<close>

text \<open>\<^verbatim>\<open>PodcastListModel.set_max_image_size\<close>.\<close>

definition set_max_image_size :: "int \<Rightarrow> podcast_list_model \<Rightarrow> podcast_list_model" where
  "set_max_image_size new_size self = self\<lparr> max_image_side := new_size, cover_cache := Map.empty \<rparr>"

text \<open>
  \<^verbatim>\<open>pixbuf.scale_simple(width, height, BILINEAR)\<close>: a new pixbuf object of the given
  size.
\<close>

definition scale_simple :: "int \<Rightarrow> int \<Rightarrow> podcast_list_model \<Rightarrow> pixbuf \<times> podcast_list_model" where
  "scale_simple w h self =
     (\<lparr> pixbuf_id = next_pixbuf self, width = w, height = h \<rparr>,
      self\<lparr> next_pixbuf := Suc (next_pixbuf self) \<rparr>)"

text \<open>
  \<^verbatim>\<open>PodcastListModel._resize_pixbuf_keep_ratio\<close>: the returned value (\<^verbatim>\<open>None\<close> or a
  pixbuf) and the model after the call.
\<close>

definition resize_pixbuf_keep_ratio :: "string \<Rightarrow> pixbuf \<Rightarrow> podcast_list_model
    \<Rightarrow> pixbuf option \<times> podcast_list_model" where
  "resize_pixbuf_keep_ratio u pixbuf self =
     (case cover_cache self u of
        Some cached \<Rightarrow> (Some cached, self)
      | None \<Rightarrow>
          (let (pixbuf1, changed1, self1) =
                 (if width pixbuf > max_image_side self then
                    (let f = real_of_int (max_image_side self) / real_of_int (width pixbuf);
                         (p, s) = scale_simple (py_int (real_of_int (width pixbuf) * f))
                                    (py_int (real_of_int (height pixbuf) * f)) self
                     in (p, True, s))
                  else (pixbuf, False, self));
               (pixbuf2, changed2, self2) =
                 (if height pixbuf1 > max_image_side self1 then
                    (let f = real_of_int (max_image_side self1) / real_of_int (height pixbuf1);
                         (p, s) = scale_simple (py_int (real_of_int (width pixbuf1) * f))
                                    (py_int (real_of_int (height pixbuf1) * f)) self1
                     in (p, True, s))
                  else (pixbuf1, changed1, self1))
           in if changed2
              then (Some pixbuf2, self2\<lparr> cover_cache := (cover_cache self2)(u \<mapsto> pixbuf2) \<rparr>)
              else (None, self2)))"

text \<open>
  \<^verbatim>\<open>PodcastListModel._resize_pixbuf\<close>:
  \<^verbatim>\<open>self._resize_pixbuf_keep_ratio(url, pixbuf) or pixbuf\<close>.
\<close>

definition resize_pixbuf :: "string \<Rightarrow> pixbuf option \<Rightarrow> podcast_list_model
    \<Rightarrow> pixbuf option \<times> podcast_list_model" where
  "resize_pixbuf u pixbuf self =
     (case pixbuf of
        None \<Rightarrow> (None, self)
      | Some p \<Rightarrow>
          (case resize_pixbuf_keep_ratio u p self of
             (Some r, self') \<Rightarrow> (Some r, self')
           | (None, self') \<Rightarrow> (Some p, self')))"

text \<open>\<^verbatim>\<open>PodcastListModel.clear_cover_cache\<close>.\<close>

definition clear_cover_cache :: "string \<Rightarrow> podcast_list_model \<Rightarrow> podcast_list_model" where
  "clear_cover_cache podcast_url self =
     (if podcast_url \<in> dom (cover_cache self)
      then self\<lparr> cover_cache := (cover_cache self)(podcast_url := None) \<rparr>
      else self)"

subsection \<open>Invariants and the specification's reading of the view flags\<close>

text \<open>
  The state of a store whose rows were appended for the episodes of a population: a
  pending updater holds no \<^verbatim>\<open>None\<close>, its queue ends with the last row, and the rows it
  has passed carry their episode; without a pending updater every row carries its
  episode.
\<close>

definition store_inv :: "episode_list_model \<Rightarrow> bool" where
  "store_inv self =
     (case background_update self of
        None \<Rightarrow> list_all (\<lambda>r. C_EPISODE r \<noteq> None) (rows self)
      | Some bu \<Rightarrow>
          list_all (\<lambda>e. e \<noteq> None) (episodes bu)
          \<and> index bu + length (episodes bu) = length (rows self)
          \<and> list_all (\<lambda>r. C_EPISODE r \<noteq> None) (take (index bu) (rows self)))"

text \<open>
  The state of the scheduling: the idle sources of the store are exactly the one whose tag
  the store remembers, and a tag is remembered exactly while an updater is pending.
\<close>

definition sched_inv :: "episode_list_model \<Rightarrow> bool" where
  "sched_inv self =
     (sources self = (case background_update_tag self of None \<Rightarrow> [] | Some t \<Rightarrow> [t])
      \<and> (background_update self = None) = (background_update_tag self = None))"

text \<open>
  The specification's words: each row carries one view flag per mode other than
  \<^verbatim>\<open>VIEW_ALL\<close>, and under \<^verbatim>\<open>VIEW_ALL\<close> every row is eligible. \<open>view_flag mode row\<close> is
  the flag of the row for the mode.
\<close>

definition view_flag :: "int \<Rightarrow> episode_row \<Rightarrow> bool" where
  "view_flag mode row =
     (if mode = VIEW_UNDELETED then C_VIEW_SHOW_UNDELETED row
      else if mode = VIEW_DOWNLOADED then C_VIEW_SHOW_DOWNLOADED row
      else if mode = VIEW_UNPLAYED then C_VIEW_SHOW_UNPLAYED row
      else True)"

text \<open>
  The search predicate raises on an episode: \<^verbatim>\<open>self._search_term_eql.match(episode)\<close>
  ends in an exception.
\<close>

definition match_raises :: "episode_list_model \<Rightarrow> episode \<Rightarrow> bool" where
  "match_raises self episode =
     (case search_term_eql self of None \<Rightarrow> True | Some match \<Rightarrow> isl (match episode))"

text \<open>The search predicate returns a true value on an episode.\<close>

definition match_true :: "episode_list_model \<Rightarrow> episode \<Rightarrow> bool" where
  "match_true self episode =
     (case search_term_eql self of None \<Rightarrow> False | Some match \<Rightarrow> match episode = Inr True)"

text \<open>
  The row that \<^verbatim>\<open>BackgroundUpdate.update\<close> leaves for an episode: its base fields and
  its update fields, written over a row.
\<close>

definition written_row :: "env \<Rightarrow> episode_list_model \<Rightarrow> bool \<Rightarrow> episode \<Rightarrow> episode_row" where
  "written_row env self incl episode =
     set_update_fields (get_update_fields env self episode incl)
       (set_base_fields episode empty_row)"

text \<open>
  The number of episodes that a call of \<^verbatim>\<open>BackgroundUpdate.update\<close> processes: how far
  it moves \<^verbatim>\<open>self.index\<close>. \<open>None\<close> when the call raises.
\<close>

definition processed :: "env \<Rightarrow> (nat \<Rightarrow> real) \<Rightarrow> background_update \<Rightarrow> episode_list_model
    \<Rightarrow> nat option" where
  "processed env tm bu model =
     (case update env tm bu model of
        Inl e \<Rightarrow> None
      | Inr (again, bu', model') \<Rightarrow> Some (index bu' - index bu))"

subsection \<open>Example values\<close>

text \<open>Collaborators, an episode and stores on which the theorems below are instantiated.\<close>

definition example_env :: env where
  "example_env = \<lparr> gettext = (\<lambda>s. s), format_from = (\<lambda>s. ''from '' @ s),
     format_filesize = (\<lambda>n d. str_int n), format_time = (\<lambda>n. str_int n),
     have_gio = False, win32 = False, query_exists = (\<lambda>f. False),
     icon_names = (\<lambda>f. []), has_icon = (\<lambda>n. False),
     UserEQL = (\<lambda>search e. case search of
                  None \<Rightarrow> Inl QueryError
                | Some t \<Rightarrow> if t = ''('' then Inl QueryError
                            else Inr (sublist (lower t) (lower (title e)))) \<rparr>"

definition example_episode :: episode where
  "example_episode = \<lparr> url = ''http://example.org/1.mp3'', title = ''One'',
     trimmed_title = ''One'', channel_title = ''Example'', published = 0,
     cute_pubdate = ''Today'', downloading = False, progress = 0,
     state = STATE_DOWNLOADED, is_new = True, archive = False, file_exists = True,
     file_type = Some ''audio'', local_filename = None, total_time = 0,
     current_position = 0, file_size = 0, get_play_info_string = [],
     one_line_description = ''One is the first'' \<rparr>"

definition example_channel :: "nat \<Rightarrow> channel" where
  "example_channel n = \<lparr> ALL_EPISODES_PROXY = False,
     get_all_episodes = replicate n example_episode \<rparr>"

text \<open>A clock that shows no time passing up to the \<open>n\<close>-th episode and a second after it.\<close>

definition late_clock :: "nat \<Rightarrow> nat \<Rightarrow> real" where
  "late_clock n k = (if k \<le> n then 0 else 1)"

definition still_clock :: "nat \<Rightarrow> real" where
  "still_clock k = 0"

text \<open>A store that has just been populated with \<open>n\<close> copies of the example episode.\<close>

definition example_store :: "nat \<Rightarrow> episode_list_model" where
  "example_store n = replace_from_channel (Some (example_channel n)) False (init_model False)"

definition example_update :: "nat \<Rightarrow> background_update" where
  "example_update n = \<lparr> episodes = replicate n (Some example_episode),
     include_description = False, index = 0 \<rparr>"

text \<open>A row that holds the example episode, as a finished update leaves it.\<close>

definition example_row :: episode_row where
  "example_row = set_update_fields
     (get_update_fields example_env (init_model False) example_episode False)
     (set_base_fields example_episode empty_row)"

text \<open>
  A store of one such row in which the search term \<^verbatim>\<open>(\<close> is active, on which the
  example query engine raises.
\<close>

definition searching_store :: episode_list_model where
  "searching_store =
     set_search_term example_env (Some ''('') ((init_model False)\<lparr> rows := [example_row] \<rparr>)"

text \<open>
  Running the updater to completion: the main loop dispatches the idle source of the store,
  one call of \<^verbatim>\<open>_update_background\<close> after the other, until the callback has returned
  \<^verbatim>\<open>False\<close> and the source is gone. \<open>clocks n\<close> is the clock of the \<open>n\<close>-th call.
\<close>

function run_idle :: "env \<Rightarrow> (nat \<Rightarrow> nat \<Rightarrow> real) \<Rightarrow> nat \<Rightarrow> episode_list_model
    \<Rightarrow> py_error + episode_list_model" where
  "run_idle env clocks n self =
     (case background_update self of
        None \<Rightarrow> Inr self
      | Some bu \<Rightarrow>
          (case background_update_tag self of
             None \<Rightarrow> Inr self
           | Some tag \<Rightarrow>
               if tag \<notin> set (sources self) then Inr self
               else (case idle_dispatch env (clocks n) tag self of
                       Inl e \<Rightarrow> Inl e
                     | Inr self' \<Rightarrow> run_idle env clocks (Suc n) self')))"
  by pat_completeness auto

section \<open>Properties\<close>

subsection \<open>The loop of the background update\<close>

text \<open>
  What one run of the loop does to the queue and the index: it takes \<open>n\<close> episodes off the
  head of the queue, at least one of a non-empty queue; it leaves episodes behind only
  where the index is a multiple of fifty and the clock is over, and it has not passed such
  a point before.
\<close>

lemma update_loop_char:
  "update_loop env tm k incl q idx model = Inr (q', idx', model') \<Longrightarrow>
   \<exists>n\<le>length q. q' = drop n q \<and> idx' = idx + n \<and> (q \<noteq> [] \<longrightarrow> 0 < n)
     \<and> (q' \<noteq> [] \<longrightarrow> (idx + n) mod 50 = 0 \<and> tm (k + n) - tm 0 > 0.02)
     \<and> (\<forall>j. 0 < j \<and> j < n \<longrightarrow> \<not> ((idx + j) mod 50 = 0 \<and> tm (k + j) - tm 0 > 0.02))
     \<and> length (rows model') = length (rows model)"
proof (induction q arbitrary: k idx model)
  case Nil
  then show ?case by simp
next
  case (Cons e rest)
  from Cons.prems obtain episode where e: "e = Some episode"
    by (cases e) auto
  from Cons.prems e have inrange: "idx < length (rows model)"
    by (auto split: if_splits)
  define model1 where "model1 = model\<lparr> rows := (rows model)[idx :=
       set_update_fields (get_update_fields env model episode incl)
         (set_base_fields episode (rows model ! idx))] \<rparr>"
  have len1: "length (rows model1) = length (rows model)"
    by (simp add: model1_def)
  show ?case
  proof (cases "(idx + 1) mod 50 = 0 \<and> tm (Suc k) - tm 0 > 0.02")
    case True
    with Cons.prems e inrange have "q' = rest" "idx' = idx + 1" "model' = model1"
      by (auto simp: Let_def model1_def)
    with True len1 show ?thesis
      by (intro exI[of _ 1]) auto
  next
    case False
    with Cons.prems e inrange
    have rec: "update_loop env tm (Suc k) incl rest (idx + 1) model1 = Inr (q', idx', model')"
      by (auto simp: Let_def model1_def)
    from Cons.IH[OF rec] obtain n where n: "n \<le> length rest" "q' = drop n rest"
      "idx' = idx + 1 + n"
      "q' \<noteq> [] \<longrightarrow> (idx + 1 + n) mod 50 = 0 \<and> tm (Suc k + n) - tm 0 > 0.02"
      "\<forall>j. 0 < j \<and> j < n \<longrightarrow> \<not> ((idx + 1 + j) mod 50 = 0 \<and> tm (Suc k + j) - tm 0 > 0.02)"
      "length (rows model') = length (rows model1)"
      by auto
    have all: "\<forall>j. 0 < j \<and> j < Suc n \<longrightarrow> \<not> ((idx + j) mod 50 = 0 \<and> tm (k + j) - tm 0 > 0.02)"
    proof (intro allI impI)
      fix j assume j: "0 < j \<and> j < Suc n"
      show "\<not> ((idx + j) mod 50 = 0 \<and> tm (k + j) - tm 0 > 0.02)"
      proof (cases "j = 1")
        case True
        with False show ?thesis by simp
      next
        case False
        with j obtain i where i: "j = Suc i" "0 < i" "i < n"
          by (cases j) auto
        with n(5) show ?thesis by simp
      qed
    qed
    from n all len1 show ?thesis
      by (intro exI[of _ "Suc n"]) auto
  qed
qed

text \<open>The loop changes nothing of the store but its rows.\<close>

lemma update_loop_only_rows:
  "update_loop env tm k incl q idx model = Inr (q', idx', model') \<Longrightarrow>
   model' = model\<lparr> rows := rows model' \<rparr>"
proof (induction q arbitrary: k idx model)
  case Nil
  then show ?case by simp
next
  case (Cons e rest)
  from Cons.prems obtain episode where e: "e = Some episode"
    by (cases e) auto
  from Cons.prems e have inrange: "idx < length (rows model)"
    by (auto split: if_splits)
  define model1 where "model1 = model\<lparr> rows := (rows model)[idx :=
       set_update_fields (get_update_fields env model episode incl)
         (set_base_fields episode (rows model ! idx))] \<rparr>"
  show ?case
  proof (cases "(idx + 1) mod 50 = 0 \<and> tm (Suc k) - tm 0 > 0.02")
    case True
    with Cons.prems e inrange have "model' = model1"
      by (auto simp: Let_def model1_def)
    then show ?thesis by (simp add: model1_def)
  next
    case False
    with Cons.prems e inrange
    have rec: "update_loop env tm (Suc k) incl rest (idx + 1) model1 = Inr (q', idx', model')"
      by (auto simp: Let_def model1_def)
    from Cons.IH[OF rec] have "model' = model1\<lparr> rows := rows model' \<rparr>" .
    then have "model' = model\<lparr> rows := rows model' \<rparr>"
      by (simp add: model1_def)
    then show ?thesis .
  qed
qed

text \<open>A property of every written row holds of every row after the loop.\<close>

lemma update_loop_rows_pred:
  assumes written: "\<And>m episode r. P (set_update_fields (get_update_fields env m episode incl)
                       (set_base_fields episode r))"
    and before: "list_all P (rows model)"
    and run: "update_loop env tm k incl q idx model = Inr (q', idx', model')"
  shows "list_all P (rows model')"
  using before run
proof (induction q arbitrary: k idx model)
  case Nil
  then show ?case by simp
next
  case (Cons e rest)
  from Cons.prems obtain episode where e: "e = Some episode"
    by (cases e) auto
  from Cons.prems e have inrange: "idx < length (rows model)"
    by (auto split: if_splits)
  define model1 where "model1 = model\<lparr> rows := (rows model)[idx :=
       set_update_fields (get_update_fields env model episode incl)
         (set_base_fields episode (rows model ! idx))] \<rparr>"
  have p1: "list_all P (rows model1)"
    using Cons.prems(1) written
    by (auto simp: model1_def list_all_iff dest!: set_update_subset_insert[THEN subsetD])
  show ?case
  proof (cases "(idx + 1) mod 50 = 0 \<and> tm (Suc k) - tm 0 > 0.02")
    case True
    with Cons.prems e inrange have "model' = model1"
      by (auto simp: Let_def model1_def)
    with p1 show ?thesis by simp
  next
    case False
    with Cons.prems e inrange
    have rec: "update_loop env tm (Suc k) incl rest (idx + 1) model1 = Inr (q', idx', model')"
      by (auto simp: Let_def model1_def)
    from Cons.IH[OF p1 rec] show ?thesis .
  qed
qed

text \<open>Every run of the idle source brings the pending work nearer to its end.\<close>

lemma idle_dispatch_measure:
  assumes "idle_dispatch env tm tag self = Inr self'"
    and "background_update self = Some bu"
    and "tag \<in> set (sources self)"
  shows "(case background_update self' of None \<Rightarrow> 0 | Some b \<Rightarrow> Suc (length (episodes b)))
         < Suc (length (episodes bu))"
proof (cases "update_loop env tm 0 (include_description bu) (episodes bu) (index bu) self")
  case (Inl a)
  with assms show ?thesis
    by (simp add: idle_dispatch_def update_background_def update_def)
next
  case (Inr r)
  then obtain q' idx' model' where r: "r = (q', idx', model')"
    by (cases r) auto
  from update_loop_char[OF Inr[unfolded r]]
  have short: "q' \<noteq> [] \<Longrightarrow> length q' < length (episodes bu)"
    by auto
  from assms Inr r short show ?thesis
    by (auto simp: idle_dispatch_def update_background_def update_def source_remove_def
        on_filter_changed_def split: if_splits)
qed

termination run_idle
proof (relation "measure (\<lambda>(env, clocks, n, self).
          case background_update self of None \<Rightarrow> 0 | Some bu \<Rightarrow> Suc (length (episodes bu)))")
  show "wf (measure (\<lambda>(env, clocks, n, self).
          case background_update self of None \<Rightarrow> 0 | Some bu \<Rightarrow> Suc (length (episodes bu))))"
    by simp
next
  fix env :: env and clocks :: "nat \<Rightarrow> nat \<Rightarrow> real" and n :: nat
    and self self' :: episode_list_model and bu tag
  assume "background_update self = Some bu" "background_update_tag self = Some tag"
    "\<not> tag \<notin> set (sources self)" "idle_dispatch env (clocks n) tag self = Inr self'"
  then show "((env, clocks, Suc n, self'), env, clocks, n, self)
      \<in> measure (\<lambda>(env, clocks, n, self).
          case background_update self of None \<Rightarrow> 0 | Some bu \<Rightarrow> Suc (length (episodes bu)))"
    using idle_dispatch_measure[of env "clocks n" tag self self' bu] by simp
qed

declare run_idle.simps [simp del]

subsection \<open>The view flags that an update computes\<close>

lemma state_locals_flags:
  "view_show_unplayed (state_locals env self episode) \<longrightarrow>
   view_show_downloaded (state_locals env self episode)"
  by (simp add: state_locals_def downloaded_locals_def Let_def split: prod.splits)

lemma get_update_fields_flags:
  "uf_view_show_unplayed (get_update_fields env self episode incl) \<longrightarrow>
   uf_view_show_downloaded (get_update_fields env self episode incl)"
  using state_locals_flags[of env self episode]
  by (simp add: get_update_fields_def Let_def)

lemma written_row_flags:
  "C_VIEW_SHOW_UNPLAYED (set_update_fields (get_update_fields env m episode incl) r) \<longrightarrow>
   C_VIEW_SHOW_DOWNLOADED (set_update_fields (get_update_fields env m episode incl) r)"
  using get_update_fields_flags[of env m episode incl]
  by (simp add: set_update_fields_def)

lemma update_by_iter_flags:
  assumes "list_all (\<lambda>r. C_VIEW_SHOW_UNPLAYED r \<longrightarrow> C_VIEW_SHOW_DOWNLOADED r) (rows self)"
  shows "list_all (\<lambda>r. C_VIEW_SHOW_UNPLAYED r \<longrightarrow> C_VIEW_SHOW_DOWNLOADED r)
           (rows (update_by_iter env i incl self))"
proof (cases "i < length (rows self)")
  case False
  with assms show ?thesis by (simp add: update_by_iter_def)
next
  case True
  show ?thesis
  proof (cases "C_EPISODE (rows self ! i)")
    case None
    with assms True show ?thesis by (simp add: update_by_iter_def)
  next
    case (Some episode)
    with True have "rows (update_by_iter env i incl self) = (rows self)[i :=
        set_update_fields (get_update_fields env self episode incl) (rows self ! i)]"
      by (simp add: update_by_iter_def)
    with assms written_row_flags[of env self episode incl "rows self ! i"] show ?thesis
      by (auto simp: list_all_iff dest!: set_update_subset_insert[THEN subsetD])
  qed
qed

text \<open>
  Claim C10. The fields that \<^verbatim>\<open>get_update_fields\<close> computes never show an episode as
  unplayed without showing it as downloaded; so a store in which no row is
  unplayed-visible without being downloaded-visible stays such a store under
  \<^verbatim>\<open>update_by_iter\<close> and under a call of \<^verbatim>\<open>BackgroundUpdate.update\<close>.
\<close>

theorem unplayed_implies_downloaded:
  "(uf_view_show_unplayed (get_update_fields env self episode incl) \<longrightarrow>
      uf_view_show_downloaded (get_update_fields env self episode incl))
   \<and> (list_all (\<lambda>r. C_VIEW_SHOW_UNPLAYED r \<longrightarrow> C_VIEW_SHOW_DOWNLOADED r) (rows self) \<longrightarrow>
        list_all (\<lambda>r. C_VIEW_SHOW_UNPLAYED r \<longrightarrow> C_VIEW_SHOW_DOWNLOADED r)
          (rows (update_by_iter env i incl self)))
   \<and> (list_all (\<lambda>r. C_VIEW_SHOW_UNPLAYED r \<longrightarrow> C_VIEW_SHOW_DOWNLOADED r) (rows self) \<longrightarrow>
        (case update env tm bu self of
           Inl e \<Rightarrow> True
         | Inr (again, bu', self') \<Rightarrow>
             list_all (\<lambda>r. C_VIEW_SHOW_UNPLAYED r \<longrightarrow> C_VIEW_SHOW_DOWNLOADED r) (rows self')))"
proof (intro conjI impI)
  show "uf_view_show_unplayed (get_update_fields env self episode incl) \<Longrightarrow>
      uf_view_show_downloaded (get_update_fields env self episode incl)"
    using get_update_fields_flags[of env self episode incl] by simp
next
  assume "list_all (\<lambda>r. C_VIEW_SHOW_UNPLAYED r \<longrightarrow> C_VIEW_SHOW_DOWNLOADED r) (rows self)"
  then show "list_all (\<lambda>r. C_VIEW_SHOW_UNPLAYED r \<longrightarrow> C_VIEW_SHOW_DOWNLOADED r)
      (rows (update_by_iter env i incl self))"
    by (rule update_by_iter_flags)
next
  assume inv: "list_all (\<lambda>r. C_VIEW_SHOW_UNPLAYED r \<longrightarrow> C_VIEW_SHOW_DOWNLOADED r) (rows self)"
  show "case update env tm bu self of
           Inl e \<Rightarrow> True
         | Inr (again, bu', self') \<Rightarrow>
             list_all (\<lambda>r. C_VIEW_SHOW_UNPLAYED r \<longrightarrow> C_VIEW_SHOW_DOWNLOADED r) (rows self')"
  proof (cases "update_loop env tm 0 (include_description bu) (episodes bu) (index bu) self")
    case (Inl a)
    then show ?thesis by (simp add: update_def)
  next
    case (Inr r)
    then obtain q' idx' model' where r: "r = (q', idx', model')"
      by (cases r) auto
    have "list_all (\<lambda>r. C_VIEW_SHOW_UNPLAYED r \<longrightarrow> C_VIEW_SHOW_DOWNLOADED r) (rows model')"
      by (rule update_loop_rows_pred[OF _ inv Inr[unfolded r]]) (rule written_row_flags)
    with Inr r show ?thesis by (simp add: update_def)
  qed
qed

theorem unplayed_implies_downloaded_witness:
  "uf_view_show_unplayed (get_update_fields example_env (example_store 1) example_episode False)
   \<and> uf_view_show_downloaded (get_update_fields example_env (example_store 1) example_episode False)
   \<and> list_all (\<lambda>r. C_VIEW_SHOW_UNPLAYED r \<longrightarrow> C_VIEW_SHOW_DOWNLOADED r) (rows (example_store 1))
   \<and> list_all (\<lambda>r. C_VIEW_SHOW_UNPLAYED r \<longrightarrow> C_VIEW_SHOW_DOWNLOADED r)
       (rows (update_by_iter example_env 0 False (example_store 1)))
   \<and> (case update example_env still_clock (example_update 1) (example_store 1) of
        Inl e \<Rightarrow> False
      | Inr (again, bu', self') \<Rightarrow>
          list_all (\<lambda>r. C_VIEW_SHOW_UNPLAYED r \<and> C_VIEW_SHOW_DOWNLOADED r) (rows self'))"
  using unplayed_implies_downloaded[of example_env "example_store 1" example_episode False 0
      still_clock "example_update 1"]
  by (simp add: update_def example_update_def example_store_def replace_from_channel_def
      update_from_episodes_def init_model_def idle_add_def example_channel_def Let_def
      update_by_iter_def empty_row_def set_update_fields_def
      get_update_fields_def state_locals_def downloaded_locals_def example_episode_def)

subsection \<open>The visibility filter of the episode list\<close>

lemma set_view_mode_fields [simp]:
  "rows (set_view_mode mode self) = rows self"
  "search_term (set_view_mode mode self) = search_term self"
  "search_term_eql (set_view_mode mode self) = search_term_eql self"
  "background_update (set_view_mode mode self) = background_update self"
  "background_update_tag (set_view_mode mode self) = background_update_tag self"
  "sources (set_view_mode mode self) = sources self"
  by (simp_all add: set_view_mode_def on_filter_changed_def)

lemma filter_search:
  "search_term self \<noteq> None \<Longrightarrow>
   filter_visible_func self row =
     (case C_EPISODE row of
        None \<Rightarrow> False
      | Some episode \<Rightarrow>
          (case search_term_eql self of
             None \<Rightarrow> True
           | Some match \<Rightarrow> (case match episode of Inl e \<Rightarrow> True | Inr b \<Rightarrow> b)))"
  by (simp add: filter_visible_func_def)

text \<open>
  Claim C4. Without a search term and in the mode \<^verbatim>\<open>VIEW_UNDELETED\<close>, a row is visible
  if and only if its flag \<^verbatim>\<open>C_VIEW_SHOW_UNDELETED\<close> is set. Switching from one view mode
  to another changes the visibility of a row if and only if the flags of the row for the
  two modes differ; so the rows of the store whose visibility changes are exactly the rows
  whose two flags differ.
\<close>

theorem filter_follows_view_flag:
  assumes "search_term self = None"
  shows "(view_mode self = VIEW_UNDELETED \<longrightarrow>
            filter_visible_func self row = C_VIEW_SHOW_UNDELETED row)
    \<and> ((filter_visible_func (set_view_mode mode1 self) row
          \<noteq> filter_visible_func (set_view_mode mode2 self) row)
         = (view_flag mode1 row \<noteq> view_flag mode2 row))
    \<and> filter (\<lambda>r. filter_visible_func (set_view_mode mode1 self) r
                  \<noteq> filter_visible_func (set_view_mode mode2 self) r) (rows self)
        = filter (\<lambda>r. view_flag mode1 r \<noteq> view_flag mode2 r) (rows self)"
proof -
  have vis: "filter_visible_func (set_view_mode mode self) r = view_flag mode r" for mode r
    using assms
    by (simp add: filter_visible_func_def set_view_mode_def on_filter_changed_def view_flag_def
        VIEW_ALL_def VIEW_UNDELETED_def VIEW_DOWNLOADED_def VIEW_UNPLAYED_def)
  have undeleted: "view_mode self = VIEW_UNDELETED \<longrightarrow>
      filter_visible_func self row = C_VIEW_SHOW_UNDELETED row"
    using assms
    by (simp add: filter_visible_func_def VIEW_ALL_def VIEW_UNDELETED_def)
  from vis undeleted show ?thesis by simp
qed

theorem filter_follows_view_flag_witness:
  "search_term ((init_model False)\<lparr> rows := [example_row, empty_row], view_mode := VIEW_UNDELETED \<rparr>) = None
   \<and> view_mode ((init_model False)\<lparr> rows := [example_row, empty_row], view_mode := VIEW_UNDELETED \<rparr>)
       = VIEW_UNDELETED
   \<and> filter_visible_func
        ((init_model False)\<lparr> rows := [example_row, empty_row], view_mode := VIEW_UNDELETED \<rparr>)
        example_row
   \<and> \<not> filter_visible_func
        ((init_model False)\<lparr> rows := [example_row, empty_row], view_mode := VIEW_UNDELETED \<rparr>)
        empty_row
   \<and> filter (\<lambda>r. filter_visible_func (set_view_mode VIEW_ALL
                     ((init_model False)\<lparr> rows := [example_row, empty_row],
                        view_mode := VIEW_UNDELETED \<rparr>)) r
                  \<noteq> filter_visible_func (set_view_mode VIEW_UNPLAYED
                     ((init_model False)\<lparr> rows := [example_row, empty_row],
                        view_mode := VIEW_UNDELETED \<rparr>)) r)
        [example_row, empty_row]
      = [empty_row]"
  using filter_follows_view_flag[of
      "(init_model False)\<lparr> rows := [example_row, empty_row], view_mode := VIEW_UNDELETED \<rparr>"
      example_row VIEW_ALL VIEW_UNPLAYED]
    filter_follows_view_flag[of
      "(init_model False)\<lparr> rows := [example_row, empty_row], view_mode := VIEW_UNDELETED \<rparr>"
      empty_row VIEW_ALL VIEW_UNPLAYED]
  by (simp add: init_model_def example_row_def empty_row_def set_update_fields_def
      set_base_fields_def get_update_fields_def state_locals_def downloaded_locals_def
      example_episode_def view_flag_def Let_def
      VIEW_ALL_def VIEW_UNDELETED_def VIEW_DOWNLOADED_def VIEW_UNPLAYED_def)

text \<open>
  Claim C2, as it stands, fails: with a search term on which the query engine raises, the
  row of the example store is visible although the predicate does not match its episode.
\<close>

theorem search_visible_without_match:
  "search_term searching_store = Some ''(''
   \<and> C_EPISODE example_row = Some example_episode
   \<and> search_term_eql searching_store = Some (UserEQL example_env (Some ''(''))
   \<and> UserEQL example_env (Some ''('') example_episode = Inl QueryError
   \<and> \<not> match_true searching_store example_episode
   \<and> filter_visible_func searching_store example_row
   \<and> filtered_rows searching_store = [example_row]"
  by (simp add: searching_store_def set_search_term_def on_filter_changed_def init_model_def
      example_row_def set_update_fields_def set_base_fields_def example_env_def
      filter_visible_func_def filtered_rows_def match_true_def)

text \<open>
  Claim C2, amended. While a search term is active the view mode and the view flags play
  no part: a row is visible if and only if it holds an episode on which the search
  predicate returns a true value or raises. So a row without an episode is hidden, and a
  search term whose predicate returns a false value on the episode of every row yields an
  empty projection in every view mode.
\<close>

theorem search_overrides_view_mode:
  assumes "search_term self \<noteq> None"
  shows "filter_visible_func self row =
           (case C_EPISODE row of
              None \<Rightarrow> False
            | Some episode \<Rightarrow> match_true self episode \<or> match_raises self episode)
    \<and> filter_visible_func (set_view_mode mode self) row = filter_visible_func self row
    \<and> (list_all (\<lambda>r. case C_EPISODE r of
                          None \<Rightarrow> True
                        | Some episode \<Rightarrow> \<not> match_true self episode \<and> \<not> match_raises self episode)
           (rows self)
         \<longrightarrow> filtered_rows (set_view_mode mode self) = [])"
proof -
  have vis: "filter_visible_func self r =
           (case C_EPISODE r of
              None \<Rightarrow> False
            | Some episode \<Rightarrow> match_true self episode \<or> match_raises self episode)" for r
    using assms
    by (auto simp: filter_visible_func_def match_true_def match_raises_def
        split: option.splits sum.splits)
  have mode: "filter_visible_func (set_view_mode mode self) r = filter_visible_func self r"
    for r
    using assms filter_search[of self r] filter_search[of "set_view_mode mode self" r]
    by (simp split: option.splits)
  have empty: "filtered_rows (set_view_mode mode self) = []"
    if none: "list_all (\<lambda>r. case C_EPISODE r of
                          None \<Rightarrow> True
                        | Some episode \<Rightarrow> \<not> match_true self episode \<and> \<not> match_raises self episode)
           (rows self)"
  proof -
    have "\<not> filter_visible_func (set_view_mode mode self) r" if "r \<in> set (rows self)" for r
      using that none mode[of r] vis[of r]
      by (auto simp: list_all_iff split: option.splits)
    then show ?thesis
      by (simp add: filtered_rows_def filter_empty_conv)
  qed
  from vis[of row] mode[of row] empty show ?thesis by blast
qed

theorem search_overrides_view_mode_witness:
  "search_term (set_search_term example_env (Some ''two'')
       ((init_model False)\<lparr> rows := [example_row, empty_row] \<rparr>)) \<noteq> None
   \<and> list_all (\<lambda>r. case C_EPISODE r of
                     None \<Rightarrow> True
                   | Some episode \<Rightarrow>
                       \<not> match_true (set_search_term example_env (Some ''two'')
                            ((init_model False)\<lparr> rows := [example_row, empty_row] \<rparr>)) episode
                       \<and> \<not> match_raises (set_search_term example_env (Some ''two'')
                            ((init_model False)\<lparr> rows := [example_row, empty_row] \<rparr>)) episode)
        (rows (set_search_term example_env (Some ''two'')
           ((init_model False)\<lparr> rows := [example_row, empty_row] \<rparr>)))
   \<and> filtered_rows (set_view_mode VIEW_ALL (set_search_term example_env (Some ''two'')
        ((init_model False)\<lparr> rows := [example_row, empty_row] \<rparr>))) = []"
proof -
  let ?s = "set_search_term example_env (Some ''two'')
       ((init_model False)\<lparr> rows := [example_row, empty_row] \<rparr>)"
  have active: "search_term ?s \<noteq> None"
    by (simp add: set_search_term_def on_filter_changed_def init_model_def)
  have none: "list_all (\<lambda>r. case C_EPISODE r of
                     None \<Rightarrow> True
                   | Some episode \<Rightarrow> \<not> match_true ?s episode \<and> \<not> match_raises ?s episode)
        (rows ?s)"
    by (simp add: set_search_term_def on_filter_changed_def init_model_def example_row_def
        empty_row_def set_update_fields_def set_base_fields_def match_true_def
        match_raises_def example_env_def example_episode_def lower_def lower_char_def
        sublist_code)
  from active none search_overrides_view_mode[OF active, of empty_row VIEW_ALL] show ?thesis
    by simp
qed

subsection \<open>What the events leave unchanged\<close>

lemma update_from_episodes_fields [simp]:
  "rows (update_from_episodes eps incl self) = rows self"
  "search_term (update_from_episodes eps incl self) = search_term self"
  "search_term_eql (update_from_episodes eps incl self) = search_term_eql self"
  "background_update (update_from_episodes eps incl self)
     = Some \<lparr> episodes = eps, include_description = incl, index = 0 \<rparr>"
  "background_update_tag (update_from_episodes eps incl self) = Some (next_tag self)"
  by (simp_all add: update_from_episodes_def idle_add_def source_remove_def Let_def
      split: option.splits)

lemma update_all_fields [simp]:
  "rows (update_all incl self) = rows self"
  "search_term (update_all incl self) = search_term self"
  "search_term_eql (update_all incl self) = search_term_eql self"
  by (simp_all add: update_all_def Let_def)

lemma update_by_iter_fields [simp]:
  "length (rows (update_by_iter env i incl self)) = length (rows self)"
  "search_term (update_by_iter env i incl self) = search_term self"
  "search_term_eql (update_by_iter env i incl self) = search_term_eql self"
  "background_update (update_by_iter env i incl self) = background_update self"
  "background_update_tag (update_by_iter env i incl self) = background_update_tag self"
  "sources (update_by_iter env i incl self) = sources self"
  by (simp_all add: update_by_iter_def split: option.splits)

text \<open>
  \<^verbatim>\<open>update_by_urls\<close> is a sequence of calls of \<^verbatim>\<open>update_by_iter\<close>: what each of them
  keeps, it keeps.
\<close>

lemma update_by_urls_keeps:
  assumes "\<And>i m. P m \<Longrightarrow> P (update_by_iter env i incl m)"
    and "P self"
  shows "P (update_by_urls env urls incl self)"
proof -
  have "P (fold (\<lambda>i m. if C_URL (rows m ! i) \<in> Some ` set urls
                        then update_by_iter env i incl m else m) xs m)" if "P m" for xs m
    using that assms(1) by (induction xs arbitrary: m) auto
  with assms(2) show ?thesis
    by (simp add: update_by_urls_def)
qed

lemma update_by_urls_fields [simp]:
  "length (rows (update_by_urls env urls incl self)) = length (rows self)"
  "search_term (update_by_urls env urls incl self) = search_term self"
  "search_term_eql (update_by_urls env urls incl self) = search_term_eql self"
  "background_update (update_by_urls env urls incl self) = background_update self"
  "background_update_tag (update_by_urls env urls incl self) = background_update_tag self"
  "sources (update_by_urls env urls incl self) = sources self"
  by (rule update_by_urls_keeps[where P = "\<lambda>m. length (rows m) = length (rows self)"], simp, simp,
      rule update_by_urls_keeps[where P = "\<lambda>m. search_term m = search_term self"], simp, simp,
      rule update_by_urls_keeps[where P = "\<lambda>m. search_term_eql m = search_term_eql self"], simp, simp,
      rule update_by_urls_keeps[where P = "\<lambda>m. background_update m = background_update self"], simp, simp,
      rule update_by_urls_keeps[where P = "\<lambda>m. background_update_tag m = background_update_tag self"], simp, simp,
      rule update_by_urls_keeps[where P = "\<lambda>m. sources m = sources self"], simp, simp)

lemma update_background_search:
  assumes "update_background env tm self = Inr (again, self')"
  shows "search_term self' = search_term self \<and> search_term_eql self' = search_term_eql self"
proof (cases "background_update self")
  case None
  with assms show ?thesis by (simp add: update_background_def)
next
  case (Some bu)
  show ?thesis
  proof (cases "update_loop env tm 0 (include_description bu) (episodes bu) (index bu) self")
    case (Inl a)
    with assms Some show ?thesis by (simp add: update_background_def update_def)
  next
    case (Inr r)
    then obtain q' idx' model' where r: "r = (q', idx', model')"
      by (cases r) auto
    from update_loop_only_rows[OF Inr[unfolded r]]
    have "search_term model' = search_term self \<and> search_term_eql model' = search_term_eql self"
      by (metis episode_list_model.select_convs(3,4) episode_list_model.surjective
          episode_list_model.update_convs(1))
    with assms Some Inr r show ?thesis
      by (auto simp: update_background_def update_def on_filter_changed_def split: if_splits)
  qed
qed

lemma idle_dispatch_search:
  assumes "idle_dispatch env tm tag self = Inr self'"
  shows "search_term self' = search_term self \<and> search_term_eql self' = search_term_eql self"
  using assms update_background_search[of env tm self]
  by (auto simp: idle_dispatch_def source_remove_def split: if_splits sum.splits)

lemma apply_event_search:
  assumes "apply_event env ev self = Inr self'"
    and "\<forall>t. ev = SetSearchTerm t \<longrightarrow> t = search_term self"
  shows "search_term self' = search_term self \<and> search_term_eql self' = search_term_eql self"
proof (cases ev)
  case (Idle tag tm)
  with assms idle_dispatch_search[of env tm tag self self'] show ?thesis by simp
next
  case (SetSearchTerm t)
  with assms show ?thesis by (auto simp: set_search_term_def)
qed (use assms in auto)

lemma run_events_search:
  assumes "run_events env evs self = Inr self'"
    and "\<forall>t. SetSearchTerm t \<in> set evs \<longrightarrow> t = search_term self"
  shows "search_term self' = search_term self \<and> search_term_eql self' = search_term_eql self"
  using assms
proof (induction evs arbitrary: self)
  case Nil
  then show ?case by simp
next
  case (Cons ev evs)
  from Cons.prems(1) obtain s1 where s1: "apply_event env ev self = Inr s1"
    "run_events env evs s1 = Inr self'"
    by (auto split: sum.splits)
  from Cons.prems(2) have "\<forall>t. ev = SetSearchTerm t \<longrightarrow> t = search_term self"
    by simp
  from apply_event_search[OF s1(1) this]
  have keep: "search_term s1 = search_term self" "search_term_eql s1 = search_term_eql self"
    by simp_all
  with Cons.prems(2) have "\<forall>t. SetSearchTerm t \<in> set evs \<longrightarrow> t = search_term s1"
    by simp
  from Cons.IH[OF s1(2) this] keep show ?case by simp
qed

text \<open>
  Claim C7. While a search term is active, a row whose episode makes the search predicate
  raise is visible; and it stays visible, whatever happens to the store, as long as no
  other search term is set: the predicate is replaced by \<^verbatim>\<open>set_search_term\<close> only.
\<close>

theorem filter_fails_open:
  assumes "search_term self \<noteq> None"
    and "C_EPISODE row = Some episode"
    and "match_raises self episode"
  shows "filter_visible_func self row
    \<and> (\<forall>evs self'. (\<forall>t. SetSearchTerm t \<in> set evs \<longrightarrow> t = search_term self)
          \<and> run_events env evs self = Inr self'
          \<longrightarrow> match_raises self' episode \<and> filter_visible_func self' row)"
proof -
  have open_now: "filter_visible_func s row"
    if "search_term s \<noteq> None" "match_raises s episode" for s
    using that assms(2) filter_search[of s row]
    by (auto simp: match_raises_def split: option.splits sum.splits)
  have later: "match_raises self' episode \<and> filter_visible_func self' row"
    if "\<forall>t. SetSearchTerm t \<in> set evs \<longrightarrow> t = search_term self"
      "run_events env evs self = Inr self'" for evs self'
  proof -
    from run_events_search[OF that(2) that(1)]
    have keep: "search_term self' = search_term self"
      "search_term_eql self' = search_term_eql self"
      by simp_all
    with assms(3) have "match_raises self' episode"
      by (simp add: match_raises_def)
    with keep assms(1) open_now[of self'] show ?thesis by simp
  qed
  from open_now[OF assms(1,3)] later show ?thesis by blast
qed

theorem filter_fails_open_witness:
  "search_term searching_store \<noteq> None
   \<and> C_EPISODE example_row = Some example_episode
   \<and> match_raises searching_store example_episode
   \<and> filter_visible_func searching_store example_row
   \<and> run_events example_env [SetViewMode VIEW_UNPLAYED, UpdateByIter 0 True,
        SetSearchTerm (Some ''('')] searching_store
      = Inr (update_by_iter example_env 0 True (set_view_mode VIEW_UNPLAYED searching_store))
   \<and> filter_visible_func
        (update_by_iter example_env 0 True (set_view_mode VIEW_UNPLAYED searching_store))
        example_row"
proof -
  have active: "search_term searching_store \<noteq> None"
    by (simp add: searching_store_def set_search_term_def on_filter_changed_def init_model_def)
  have ep: "C_EPISODE example_row = Some example_episode"
    by (simp add: example_row_def set_update_fields_def set_base_fields_def)
  have raises: "match_raises searching_store example_episode"
    by (simp add: searching_store_def set_search_term_def on_filter_changed_def init_model_def
        match_raises_def example_env_def)
  have same: "search_term (update_by_iter example_env 0 True
        (set_view_mode VIEW_UNPLAYED searching_store)) = Some ''(''"
    by (simp add: searching_store_def set_search_term_def on_filter_changed_def init_model_def)
  have run: "run_events example_env [SetViewMode VIEW_UNPLAYED, UpdateByIter 0 True,
        SetSearchTerm (Some ''('')] searching_store
      = Inr (update_by_iter example_env 0 True (set_view_mode VIEW_UNPLAYED searching_store))"
    using same by (simp add: set_search_term_def)
  have only: "\<forall>t. SetSearchTerm t \<in> set [SetViewMode VIEW_UNPLAYED, UpdateByIter 0 True,
        SetSearchTerm (Some ''('')] \<longrightarrow> t = search_term searching_store"
    by (simp add: searching_store_def set_search_term_def on_filter_changed_def init_model_def)
  from filter_fails_open[OF active ep raises, of example_env] only run active ep raises
  show ?thesis by blast
qed

end
